theory Spec2Isabelle
  imports Complex_Main
begin

section \<open>JavaScript values and errors\<close>

text \<open>
  Exceptions of the TypeScript sources are values: a function that can throw returns
  \<open>js_error + 'a\<close>, with \<open>Inl\<close> for the exception.
  \<^item> \<open>AxiosError s\<close>: axios rejected the request; \<open>s\<close> is \<open>error.response?.status\<close>
    (\<open>None\<close> for a network error or a timeout, where there is no response);
  \<^item> \<open>TypeError\<close>: a property of \<open>undefined\<close>/\<open>null\<close> was read, or a non-function called;
  \<^item> \<open>BotDetection\<close>: the \<open>new Error('Bot detection - ...')\<close> of the Worker's detail fetch;
  \<^item> \<open>TransportError\<close>: the queue's backing store failed.
\<close>

datatype js_error = AxiosError "nat option" | TypeError | BotDetection | TransportError

section \<open>OtodomCityScraper.fetchListingIds (src/unnamed/part_002)\<close>

text \<open>
  What \<open>data?.pageProps?.data?.searchAds?.items\<close> evaluates to:
  \<^item> \<open>ItemsAbsent\<close>: \<open>undefined\<close> or another falsy value (some level of the path is missing);
  \<^item> \<open>ItemsNotArray\<close>: a truthy value without a \<open>map\<close> method, so \<open>items.map(...)\<close> throws;
  \<^item> \<open>ItemsArray xs\<close>: an array; an element is \<open>Some s\<close> when \<open>String(item.id)\<close> is \<open>s\<close>,
    and \<open>None\<close> when the element is \<open>null\<close>/\<open>undefined\<close>, so that \<open>item.id\<close> throws.
\<close>

datatype search_items = ItemsAbsent | ItemsNotArray | ItemsArray "string option list"

record search_response =
  items :: search_items
  totalItems :: "int option"  \<comment> \<open>\<open>pagination?.totalItems\<close>\<close>

text \<open>The outcome of \<open>axios.get(url, ...)\<close>: a rejection, or \<open>response.data\<close>.\<close>

datatype search_http = SearchFails js_error | SearchData search_response

record listing_page =
  ids :: "string list"
  total :: int

definition empty_page :: listing_page where
  "empty_page = \<lparr>ids = [], total = 0\<rparr>"

text \<open>\<open>items.map(item => String(item.id))\<close>\<close>

fun map_item_ids :: "string option list \<Rightarrow> js_error + string list" where
  "map_item_ids [] = Inr []"
| "map_item_ids (None # xs) = Inl TypeError"
| "map_item_ids (Some s # xs) =
     (case map_item_ids xs of Inl e \<Rightarrow> Inl e | Inr ss \<Rightarrow> Inr (s # ss))"

text \<open>\<open>pagination?.totalItems || 0\<close>\<close>

definition total_or_zero :: "int option \<Rightarrow> int" where
  "total_or_zero t = (case t of None \<Rightarrow> 0 | Some n \<Rightarrow> if n = 0 then 0 else n)"

text \<open>The body of the \<open>try\<close> block.\<close>

definition fetchListingIds_try :: "search_http \<Rightarrow> js_error + listing_page" where
  "fetchListingIds_try h =
     (case h of
        SearchFails e \<Rightarrow> Inl e
      | SearchData d \<Rightarrow>
          (case items d of
             ItemsAbsent \<Rightarrow> Inr \<lparr>ids = [], total = 0\<rparr>
           | ItemsNotArray \<Rightarrow> Inl TypeError
           | ItemsArray xs \<Rightarrow>
               (case map_item_ids xs of
                  Inl e \<Rightarrow> Inl e
                | Inr ss \<Rightarrow> Inr \<lparr>ids = ss, total = total_or_zero (totalItems d)\<rparr>)))"

text \<open>The whole function: the \<open>catch\<close> logs the error and returns the empty page.\<close>

definition fetchListingIds :: "search_http \<Rightarrow> js_error + listing_page" where
  "fetchListingIds h =
     (case fetchListingIds_try h of
        Inl e \<Rightarrow> Inr \<lparr>ids = [], total = 0\<rparr>
      | Inr p \<Rightarrow> Inr p)"

section \<open>transformToStandard (the transformer in src/unnamed/part_005)\<close>

subsection \<open>Property access on an object literal\<close>

text \<open>
  \<open>propertyTypeMap[key]\<close> reads a property of an object literal. JavaScript looks for an own
  property first and then follows the prototype chain, so a key that the literal does not
  have but \<open>Object.prototype\<close> has yields the inherited member (a function, or for
  \<open>__proto__\<close> the prototype object itself), which is truthy and not a string. Only a key
  found in neither yields \<open>undefined\<close>.
\<close>

datatype js_value = JString string | JInherited string

definition object_prototype_keys :: "string list" where
  "object_prototype_keys =
     [''constructor'', ''__defineGetter__'', ''__defineSetter__'', ''hasOwnProperty'',
      ''__lookupGetter__'', ''__lookupSetter__'', ''isPrototypeOf'', ''propertyIsEnumerable'',
      ''toString'', ''valueOf'', ''__proto__'', ''toLocaleString'']"

text \<open>\<open>obj[key]\<close> for an object literal with string values; \<open>None\<close> is \<open>undefined\<close>.\<close>

definition js_get :: "(string \<times> string) list \<Rightarrow> string \<Rightarrow> js_value option" where
  "js_get obj key =
     (case map_of obj key of
        Some v \<Rightarrow> Some (JString v)
      | None \<Rightarrow> if key \<in> set object_prototype_keys then Some (JInherited key) else None)"

text \<open>\<open>v || 'd'\<close>: \<open>undefined\<close> and the empty string are falsy.\<close>

definition js_or :: "js_value option \<Rightarrow> string \<Rightarrow> js_value" where
  "js_or v d =
     (case v of
        None \<Rightarrow> JString d
      | Some (JString s) \<Rightarrow> if s = [] then JString d else JString s
      | Some (JInherited k) \<Rightarrow> JInherited k)"

text \<open>
  \<open>String.prototype.toLowerCase\<close> is a built-in of the runtime and lowers the letters of
  all of Unicode; the functions that call it take it as a parameter (\<open>lower\<close>). On a
  string of ASCII characters it is the following function, which lowers the letters A to Z.
\<close>

definition lower_char :: "char \<Rightarrow> char" where
  "lower_char c =
     (case map_of (zip ''ABCDEFGHIJKLMNOPQRSTUVWXYZ'' ''abcdefghijklmnopqrstuvwxyz'') c of
        Some l \<Rightarrow> l
      | None \<Rightarrow> c)"

definition ascii_toLowerCase :: "string \<Rightarrow> string" where
  "ascii_toLowerCase s = map lower_char s"

subsection \<open>The Property and StandardProperty records\<close>

record coordinates =
  lat :: rat
  lng :: rat

record property_location =
  address :: "string option"
  city :: "string option"
  district :: "string option"
  province :: "string option"
  postalCode :: "string option"
  coordinates :: "coordinates option"

text \<open>
  The \<open>Property\<close> that the transformer is typed against (``Property type for transformer
  compatibility'' in src/src/types.ts), with \<open>propertyType: string\<close> and
  \<open>listingType: string\<close>: the fields that \<open>transformToStandard\<close> copies or maps. The numeric
  details (with the floating-point conversion to square feet), the amenities parsed from
  the features, agent, status, dates and the country-specific block are left out.
\<close>

record property =
  prop_id :: string
  title :: string
  description :: "string option"
  price :: "rat option"
  currency :: string
  propertyType :: string
  listingType :: string
  location :: property_location
  features :: "string list"
  images :: "string list"
  scrapedAt :: string

record standard_location =
  loc_address :: "string option"
  loc_city :: "string option"
  loc_district :: "string option"
  loc_province :: "string option"
  loc_postal_code :: "string option"
  loc_country :: string
  loc_coordinates :: "(rat \<times> rat) option"

record standard_property =
  std_title :: string
  std_description :: "string option"
  std_price :: "rat option"
  std_currency :: string
  property_type :: js_value
  transaction_type :: js_value
  std_location :: standard_location
  std_features :: "string list"
  std_images :: "string list"
  scraped_at :: string

subsection \<open>The function\<close>

definition propertyTypeMap :: "(string \<times> string) list" where
  "propertyTypeMap =
     [(''apartment'', ''apartment''),
      (''mieszkanie'', ''apartment''),
      (''house'', ''house''),
      (''dom'', ''house''),
      (''land'', ''land''),
      (''dzialka'', ''land''),
      (''dzia'' @ [CHR 0xC5, CHR 0x82] @ ''ka'', ''land''),
      (''commercial'', ''commercial''),
      (''lokal'', ''commercial''),
      (''property'', ''other'')]"

definition transactionTypeMap :: "(string \<times> string) list" where
  "transactionTypeMap =
     [(''sale'', ''sale''), (''rent'', ''rent''), (''lease'', ''lease''), (''other'', ''other'')]"

text \<open>\<open>propertyTypeMap[property.propertyType.toLowerCase()] || 'other'\<close>\<close>

definition standardPropertyType :: "(string \<Rightarrow> string) \<Rightarrow> string \<Rightarrow> js_value" where
  "standardPropertyType lower pt = js_or (js_get propertyTypeMap (lower pt)) ''other''"

text \<open>\<open>transactionTypeMap[property.listingType] || 'other'\<close>\<close>

definition transactionType :: "string \<Rightarrow> js_value" where
  "transactionType lt = js_or (js_get transactionTypeMap lt) ''other''"

text \<open>
  \<open>coordinates?.lat && coordinates?.lng ? {lat, lon: lng} : undefined\<close>; the number 0 is
  falsy.
\<close>

definition extract_coordinates :: "coordinates option \<Rightarrow> (rat \<times> rat) option" where
  "extract_coordinates c =
     (case c of
        None \<Rightarrow> None
      | Some xy \<Rightarrow>
          if lat xy \<noteq> 0 \<and> lng xy \<noteq> 0 then Some (lat xy, lng xy) else None)"

definition transformToStandard :: "(string \<Rightarrow> string) \<Rightarrow> property \<Rightarrow> standard_property" where
  "transformToStandard lower p =
     \<lparr>std_title = title p,
      std_description = description p,
      std_price = price p,
      std_currency = currency p,
      property_type = standardPropertyType lower (propertyType p),
      transaction_type = transactionType (listingType p),
      std_location =
        \<lparr>loc_address = address (location p),
         loc_city = city (location p),
         loc_district = district (location p),
         loc_province = province (location p),
         loc_postal_code = postalCode (location p),
         loc_country = ''poland'',
         loc_coordinates = extract_coordinates (coordinates (location p))\<rparr>,
      std_features = features p,
      std_images = images p,
      scraped_at = scrapedAt p\<rparr>"

text \<open>The five strings \<open>property_type\<close> is meant to take, and the four of \<open>transaction_type\<close>.\<close>

definition standard_property_types :: "js_value set" where
  "standard_property_types =
     JString ` {''apartment'', ''house'', ''land'', ''commercial'', ''other''}"

definition standard_transaction_types :: "js_value set" where
  "standard_transaction_types = JString ` {''sale'', ''rent'', ''lease'', ''other''}"

text \<open>
  A well-typed \<open>Property\<close> whose \<open>propertyType\<close> is the string \<open>'constructor'\<close>, and one
  whose \<open>listingType\<close> is.
\<close>

definition constructor_property :: property where
  "constructor_property =
     \<lparr>prop_id = ''1'', title = ''Flat'', description = None, price = None, currency = ''PLN'',
      propertyType = ''constructor'', listingType = ''sale'',
      location = \<lparr>address = None, city = None, district = None, province = None,
                  postalCode = None, coordinates = None\<rparr>,
      features = [], images = [], scrapedAt = ''2025-01-01T00:00:00.000Z''\<rparr>"

definition constructor_listing :: property where
  "constructor_listing =
     constructor_property\<lparr>propertyType := ''mieszkanie'', listingType := ''constructor''\<rparr>"

section \<open>The work queue (RedisQueue)\<close>

text \<open>
  A JSON value as far as its truthiness and its text matter; \<open>JCompound\<close> is an array or
  an object.
\<close>

datatype json = JNull | JBool bool | JNumber rat | JText string | JCompound

fun truthy :: "json \<Rightarrow> bool" where
  "truthy JNull = False"
| "truthy (JBool b) = b"
| "truthy (JNumber n) = (n \<noteq> 0)"
| "truthy (JText s) = (s \<noteq> [])"
| "truthy JCompound = True"

text \<open>
  The ad object found in a listing page (\<open>nextData.props.pageProps.ad\<close>), which is the raw
  payload the snapshots store:
  \<^item> \<open>ad_id\<close>: the value of its \<open>id\<close> property, \<open>None\<close> when it has none;
  \<^item> \<open>ad_json\<close>: the JSON text of the object;
  \<^item> \<open>ad_property\<close>: the fields that \<open>transformToStandard\<close> reads, when the object has them;
    \<open>None\<close> when \<open>propertyType\<close>, \<open>location\<close>, \<open>details\<close> or \<open>features\<close> is missing, where
    the untyped call \<open>transformToStandard(property)\<close> throws a TypeError.
\<close>

record ad =
  ad_id :: "json option"
  ad_json :: string
  ad_property :: "property option"

type_synonym listing_id = string

text \<open>
  Modelled from the spec: the state of \<open>RedisQueue\<close> (section 3 and 4.1), whose source is
  not among the files: the pending and the missing channel, the processed set, the
  snapshots with their last-seen times, the retry counters, the failed ids and the ids
  verified inactive.
\<close>

record queue =
  pending :: "listing_id list"
  processed :: "listing_id set"
  snapshots :: "listing_id \<rightharpoonup> ad"
  lastSeen :: "listing_id \<rightharpoonup> nat"
  retry_counts :: "listing_id \<rightharpoonup> nat"
  failed :: "(listing_id \<times> string) list"
  missing :: "listing_id list"
  verifiedInactive :: "listing_id set"

text \<open>
  Modelled from the spec: \<open>IsProcessed(id)\<close> of \<open>RedisQueue\<close>, membership in the processed set.
\<close>

definition isProcessed :: "queue \<Rightarrow> listing_id \<Rightarrow> bool" where
  "isProcessed q i = (i \<in> processed q)"

text \<open>
  Modelled from the spec: \<open>MarkProcessed(id)\<close> of \<open>RedisQueue\<close>; marking twice leaves the set as it is.
\<close>

definition markProcessed :: "queue \<Rightarrow> listing_id \<Rightarrow> queue" where
  "markProcessed q i = q\<lparr>processed := insert i (processed q)\<rparr>"

text \<open>
  Modelled from the spec: \<open>HasChanged(id, payload)\<close> of \<open>RedisQueue\<close> compares with the stored
  snapshot; no prior snapshot counts as changed.
\<close>

definition hasPropertyChanged :: "queue \<Rightarrow> listing_id \<Rightarrow> ad \<Rightarrow> bool" where
  "hasPropertyChanged q i payload =
     (case snapshots q i of None \<Rightarrow> True | Some old \<Rightarrow> old \<noteq> payload)"

text \<open>
  Modelled from the spec: \<open>StoreSnapshot(id, payload, timestamp)\<close> of \<open>RedisQueue\<close>.
\<close>

definition storePropertySnapshot :: "queue \<Rightarrow> listing_id \<Rightarrow> ad \<Rightarrow> nat \<Rightarrow> queue" where
  "storePropertySnapshot q i payload now =
     q\<lparr>snapshots := (snapshots q)(i \<mapsto> payload), lastSeen := (lastSeen q)(i \<mapsto> now)\<rparr>"

text \<open>
  Modelled from the spec: \<open>markFailed(id, reason)\<close> of \<open>RedisQueue\<close> records the failed id (the
  spec's failed/not-found counter).
\<close>

definition markFailed :: "queue \<Rightarrow> listing_id \<Rightarrow> string \<Rightarrow> queue" where
  "markFailed q i reason = q\<lparr>failed := failed q @ [(i, reason)]\<rparr>"

text \<open>
  Modelled from the spec: the retry counter of an id in \<open>RedisQueue\<close>, 0 when it has none.
\<close>

definition retry_count :: "queue \<Rightarrow> listing_id \<Rightarrow> nat" where
  "retry_count q i = (case retry_counts q i of None \<Rightarrow> 0 | Some n \<Rightarrow> n)"

text \<open>
  Modelled from the spec: \<open>RequeueWithRetry(id, maxAttempts)\<close> of \<open>RedisQueue\<close> increments the
  retry counter; below the limit it re-enqueues the id to pending and returns true; at the
  limit it removes the id from the transient state and returns false.
\<close>

definition requeueWithRetry :: "queue \<Rightarrow> listing_id \<Rightarrow> nat \<Rightarrow> queue \<times> bool" where
  "requeueWithRetry q i maxAttempts =
     (let n = retry_count q i + 1 in
      if n < maxAttempts
      then (q\<lparr>retry_counts := (retry_counts q)(i \<mapsto> n), pending := pending q @ [i]\<rparr>, True)
      else (q\<lparr>retry_counts := (retry_counts q)(i := None), pending := removeAll i (pending q)\<rparr>, False))"

text \<open>
  Modelled from the spec: \<open>UpdateLastSeen(id)\<close> of \<open>RedisQueue\<close>.
\<close>

definition updateLastSeen :: "queue \<Rightarrow> listing_id \<Rightarrow> nat \<Rightarrow> queue" where
  "updateLastSeen q i now = q\<lparr>lastSeen := (lastSeen q)(i \<mapsto> now)\<rparr>"

text \<open>
  Modelled from the spec: \<open>MarkVerifiedInactive(id)\<close> of \<open>RedisQueue\<close>.
\<close>

definition markVerifiedInactive :: "queue \<Rightarrow> listing_id \<Rightarrow> queue" where
  "markVerifiedInactive q i = q\<lparr>verifiedInactive := insert i (verifiedInactive q)\<rparr>"

text \<open>
  Modelled from the spec: the ids \<open>EnqueueIfNew\<close> of \<open>RedisQueue\<close> filters out (queued, processed
  or verified inactive).
\<close>

definition known :: "queue \<Rightarrow> listing_id \<Rightarrow> bool" where
  "known q i = (i \<in> set (pending q) \<or> i \<in> processed q \<or> i \<in> verifiedInactive q)"

text \<open>
  Modelled from the spec: \<open>EnqueueIfNew(ids)\<close> of \<open>RedisQueue\<close>, returning the number added.
\<close>

fun pushListingIds :: "queue \<Rightarrow> listing_id list \<Rightarrow> queue \<times> nat" where
  "pushListingIds q [] = (q, 0)"
| "pushListingIds q (i # is) =
     (if known q i then pushListingIds q is
      else (case pushListingIds (q\<lparr>pending := pending q @ [i]\<rparr>) is of
              (q', n) \<Rightarrow> (q', Suc n)))"

definition empty_queue :: queue where
  "empty_queue =
     \<lparr>pending = [], processed = {}, snapshots = Map.empty, lastSeen = Map.empty,
      retry_counts = Map.empty, failed = [], missing = [], verifiedInactive = {}\<rparr>"

section \<open>Collaborators: HTTP, configuration, the Core Service (src/src/core.ts)\<close>

text \<open>
  What a GET of a listing URL meets: no response at all (network error, timeout), or a
  status with a page. \<open>extractNextData\<close> and \<open>nextData?.props?.pageProps?.ad\<close> give
  \<open>NoNextData\<close> when the script tag is missing or does not parse (or the body is not a
  string), and otherwise the ad, if the page has one.
\<close>

datatype page = NoNextData | NextData "ad option"

datatype http_outcome = NoResponse | Status nat page

text \<open>The queue operations that can fail with a transport error.\<close>

datatype queue_op =
    OpIsProcessed | OpMarkFailed | OpHasPropertyChanged | OpStorePropertySnapshot
  | OpMarkProcessed | OpRequeueWithRetry | OpUpdateLastSeen | OpMarkVerifiedInactive
  | OpPushListingIds

text \<open>
  The surroundings of one attempt: \<open>config.apiKey\<close>, what each URL answers, which queue
  operations fail, whether the POST to the Core Service fails (and with what), the clock,
  and the built-in \<open>String.prototype.toLowerCase\<close>.
\<close>

record env =
  apiKey :: string
  lowerCase :: "string \<Rightarrow> string"
  http :: "string \<Rightarrow> http_outcome"
  queue_fails :: "queue_op \<Rightarrow> bool"
  sink_error :: "js_error option"
  clock :: nat

definition config_portal :: string where "config_portal = ''otodom''"
definition config_country :: string where "config_country = ''poland''"

record ingestion_payload =
  portal :: string
  portal_id :: json
  country :: string
  data :: standard_property
  raw_data :: ad
  status :: "string option"

text \<open>The calls made to the queue and to the Core Service client, in order.\<close>

datatype call =
    IsProcessed listing_id
  | MarkFailed listing_id string
  | HasPropertyChanged listing_id ad
  | SendToCoreService ingestion_payload
  | StorePropertySnapshot listing_id ad
  | MarkProcessed listing_id
  | RequeueWithRetry listing_id nat
  | UpdateLastSeen listing_id
  | MarkPropertyInactive string listing_id string string
  | MarkVerifiedInactive listing_id
  | PushListingIds "listing_id list"

text \<open>
  \<open>sendToCoreService\<close> and \<open>markPropertyInactive\<close>: without an API key they return at once
  without a request; otherwise they POST, and rethrow the error of a failed POST.
\<close>

definition sendToCoreService :: "env \<Rightarrow> ingestion_payload \<Rightarrow> js_error + unit" where
  "sendToCoreService e payload =
     (if apiKey e = [] then Inr ()
      else (case sink_error e of Some err \<Rightarrow> Inl err | None \<Rightarrow> Inr ()))"

definition markPropertyInactive ::
    "env \<Rightarrow> string \<Rightarrow> listing_id \<Rightarrow> string \<Rightarrow> string \<Rightarrow> js_error + unit" where
  "markPropertyInactive e prt i ctry reason =
     (if apiKey e = [] then Inr ()
      else (case sink_error e of Some err \<Rightarrow> Inl err | None \<Rightarrow> Inr ()))"

text \<open>The two URL forms tried for a listing.\<close>

definition listing_urls :: "listing_id \<Rightarrow> string list" where
  "listing_urls i =
     [''https://www.otodom.pl/pl/oferta/'' @ i, ''https://www.otodom.pl/pl/oferta/ID'' @ i]"

section \<open>The Worker: OtodomWorker (src/src/scraper-playwright.ts)\<close>

text \<open>
  axios with its default \<open>validateStatus\<close>: a status outside 200..299 rejects with the
  status in \<open>error.response\<close>.
\<close>

definition axios_get :: "http_outcome \<Rightarrow> js_error + page" where
  "axios_get h =
     (case h of
        NoResponse \<Rightarrow> Inl (AxiosError None)
      | Status s pg \<Rightarrow> if 200 \<le> s \<and> s < 300 then Inr pg else Inl (AxiosError (Some s)))"

text \<open>
  The object \<open>fetchPropertyDetail\<close> returns:
  \<open>{id: String(ad.id || listingId), source, url, ...ad, rawData: ad}\<close>. The spread comes
  after \<open>id\<close>, so when the ad has an \<open>id\<close> property its value replaces the string, as it
  is; only an ad without one leaves \<open>String(listingId)\<close>.
\<close>

record fetched =
  fetched_id :: json
  rawData :: ad

text \<open>
  \<open>fetchPropertyDetail\<close>: the loop over the URL forms. \<open>Inr None\<close> is the \<open>null\<close> it returns
  when all of them failed; a 403 throws out of the \<open>catch\<close> block.
\<close>

fun fetchPropertyDetail_urls ::
    "(string \<Rightarrow> http_outcome) \<Rightarrow> listing_id \<Rightarrow> string list \<Rightarrow> js_error + fetched option" where
  "fetchPropertyDetail_urls get i [] = Inr None"
| "fetchPropertyDetail_urls get i (u # us) =
     (case axios_get (get u) of
        Inr NoNextData \<Rightarrow> fetchPropertyDetail_urls get i us
      | Inr (NextData None) \<Rightarrow> fetchPropertyDetail_urls get i us
      | Inr (NextData (Some a)) \<Rightarrow>
          Inr (Some \<lparr>fetched_id = (case ad_id a of Some x \<Rightarrow> x | None \<Rightarrow> JText i),
                     rawData = a\<rparr>)
      | Inl (AxiosError (Some s)) \<Rightarrow>
          if s = 404 then fetchPropertyDetail_urls get i us
          else if s = 403 then Inl BotDetection
          else fetchPropertyDetail_urls get i us
      | Inl err \<Rightarrow> fetchPropertyDetail_urls get i us)"

definition fetchPropertyDetail ::
    "(string \<Rightarrow> http_outcome) \<Rightarrow> listing_id \<Rightarrow> js_error + fetched option" where
  "fetchPropertyDetail get i = fetchPropertyDetail_urls get i (listing_urls i)"

text \<open>The call \<open>transformToStandard(property)\<close> on the untyped object.\<close>

definition transform_fetched ::
    "(string \<Rightarrow> string) \<Rightarrow> fetched \<Rightarrow> js_error + standard_property" where
  "transform_fetched lower f =
     (case ad_property (rawData f) of
        None \<Rightarrow> Inl TypeError
      | Some p \<Rightarrow> Inr (transformToStandard lower p))"

record worker =
  w_queue :: queue
  w_calls :: "call list"
  processedCount :: nat
  failedCount :: nat
  changedCount :: nat
  unchangedCount :: nat

definition called :: "call \<Rightarrow> worker \<Rightarrow> worker" where
  "called c w = w\<lparr>w_calls := w_calls w @ [c]\<rparr>"

definition worker_payload :: "fetched \<Rightarrow> standard_property \<Rightarrow> ingestion_payload" where
  "worker_payload f std =
     \<lparr>portal = config_portal, portal_id = fetched_id f, country = config_country,
      data = std, raw_data = rawData f, status = Some ''active''\<rparr>"

text \<open>\<open>await this.queue.markProcessed(id); this.processedCount++; ... return true\<close>\<close>

definition mark_processed_step :: "env \<Rightarrow> listing_id \<Rightarrow> worker \<Rightarrow> (js_error + bool) \<times> worker" where
  "mark_processed_step e i w =
     (let w1 = called (MarkProcessed i) w in
      if queue_fails e OpMarkProcessed then (Inl TransportError, w1)
      else (Inr True, w1\<lparr>w_queue := markProcessed (w_queue w1) i,
                        processedCount := processedCount w1 + 1\<rparr>))"

text \<open>The \<open>else\<close> branch of \<open>if (!hasChanged)\<close>, followed by the marking.\<close>

definition changed_step ::
    "env \<Rightarrow> listing_id \<Rightarrow> fetched \<Rightarrow> worker \<Rightarrow> (js_error + bool) \<times> worker" where
  "changed_step e i f w =
     (case transform_fetched (lowerCase e) f of
        Inl err \<Rightarrow> (Inl err, w)
      | Inr std \<Rightarrow>
          (let w1 = (if apiKey e \<noteq> [] then called (SendToCoreService (worker_payload f std)) w
                     else w);
               sent = (if apiKey e \<noteq> [] then sendToCoreService e (worker_payload f std)
                       else Inr ())
           in case sent of
                Inl err \<Rightarrow> (Inl err, w1)
              | Inr u \<Rightarrow>
                  (let w2 = called (StorePropertySnapshot i (rawData f)) w1 in
                   if queue_fails e OpStorePropertySnapshot then (Inl TransportError, w2)
                   else mark_processed_step e i
                          (w2\<lparr>w_queue := storePropertySnapshot (w_queue w2) i (rawData f) (clock e),
                              changedCount := changedCount w2 + 1\<rparr>))))"

text \<open>The body of the \<open>try\<close> block of \<open>processListing\<close>; \<open>Inl\<close> is a throw.\<close>

definition processListing_try :: "env \<Rightarrow> listing_id \<Rightarrow> worker \<Rightarrow> (js_error + bool) \<times> worker" where
  "processListing_try e i w =
     (let w1 = called (IsProcessed i) w in
      if queue_fails e OpIsProcessed then (Inl TransportError, w1)
      else if isProcessed (w_queue w1) i then (Inr True, w1)
      else
        (case fetchPropertyDetail (http e) i of
           Inl err \<Rightarrow> (Inl err, w1)
         | Inr None \<Rightarrow>
             (let w2 = called (MarkFailed i ''Not found'') w1 in
              if queue_fails e OpMarkFailed then (Inl TransportError, w2)
              else (Inr False, w2\<lparr>w_queue := markFailed (w_queue w2) i ''Not found''\<rparr>))
         | Inr (Some f) \<Rightarrow>
             (let w2 = called (HasPropertyChanged i (rawData f)) w1 in
              if queue_fails e OpHasPropertyChanged then (Inl TransportError, w2)
              else if \<not> hasPropertyChanged (w_queue w2) i (rawData f)
              then mark_processed_step e i (w2\<lparr>unchangedCount := unchangedCount w2 + 1\<rparr>)
              else changed_step e i f w2)))"

text \<open>
  \<open>processListing\<close>: the \<open>catch\<close> requeues with the retry limit 3 and returns false. \<open>Inl\<close> is
  left only for a throw of \<open>requeueWithRetry\<close> itself, which leaves the function.
\<close>

definition processListing :: "env \<Rightarrow> listing_id \<Rightarrow> worker \<Rightarrow> (js_error + bool) \<times> worker" where
  "processListing e i w =
     (case processListing_try e i w of
        (Inr b, w1) \<Rightarrow> (Inr b, w1)
      | (Inl err, w1) \<Rightarrow>
          (let w2 = called (RequeueWithRetry i 3) w1 in
           if queue_fails e OpRequeueWithRetry then (Inl TransportError, w2)
           else (case requeueWithRetry (w_queue w2) i 3 of
                   (q, requeued) \<Rightarrow>
                     (Inr False,
                      w2\<lparr>w_queue := q,
                         failedCount := (if requeued then failedCount w2
                                         else failedCount w2 + 1)\<rparr>))))"


fun is_ingest :: "call \<Rightarrow> bool" where
  "is_ingest (SendToCoreService p) = True"
| "is_ingest c = False"

fun is_deactivation :: "call \<Rightarrow> bool" where
  "is_deactivation (MarkPropertyInactive p i c r) = True"
| "is_deactivation (MarkVerifiedInactive i) = True"
| "is_deactivation c = False"

subsection \<open>The Worker's loop\<close>

text \<open>
  The queue is shared with the other processes, so what each poll of the loop meets is an
  input: the pop times out (\<open>PollEmpty\<close>, with whether reading the stats afterwards throws),
  the pop throws, the pop yields a string (with the surroundings of its processing), or
  \<open>stop()\<close> has set \<open>isRunning\<close> to false before the loop condition is tested. The loop
  tests \<open>if (!id)\<close>, so a popped empty string is taken for an empty queue as well.
\<close>

datatype poll = PollEmpty bool | PollThrows | PollId listing_id env | StopCalled

datatype loop_end = LoopExited | ScriptExhausted

definition maxEmptyChecks :: nat where
  "maxEmptyChecks = 10"

text \<open>
  \<open>start\<close>: the first argument is \<open>emptyQueueCount\<close>. The result says whether the loop was
  left, with the count, the state and the polls that were not reached.
\<close>

fun worker_loop :: "nat \<Rightarrow> worker \<Rightarrow> poll list \<Rightarrow> loop_end \<times> nat \<times> worker \<times> poll list" where
  "worker_loop c w [] = (ScriptExhausted, c, w, [])"
| "worker_loop c w (StopCalled # ps) = (LoopExited, c, w, ps)"
| "worker_loop c w (PollThrows # ps) = worker_loop c w ps"
| "worker_loop c w (PollEmpty stats_throw # ps) =
     (if c + 1 \<ge> maxEmptyChecks then (LoopExited, c + 1, w, ps)
      else if stats_throw then worker_loop (c + 1) w ps
      else worker_loop (c + 1) w ps)"
| "worker_loop c w (PollId i e # ps) =
     (if i = []
      then (if c + 1 \<ge> maxEmptyChecks then (LoopExited, c + 1, w, ps)
            else worker_loop (c + 1) w ps)
      else worker_loop 0 (snd (processListing e i w)) ps)"

definition worker_start :: "worker \<Rightarrow> poll list \<Rightarrow> loop_end \<times> nat \<times> worker \<times> poll list" where
  "worker_start w ps = worker_loop 0 w ps"

section \<open>The Verifier: MissingPropertyVerifier (src/unnamed/part_005)\<close>

text \<open>axios with \<open>validateStatus: (status) => status < 500\<close>.\<close>

definition axios_get_below_500 :: "http_outcome \<Rightarrow> js_error + nat \<times> page" where
  "axios_get_below_500 h =
     (case h of
        NoResponse \<Rightarrow> Inl (AxiosError None)
      | Status s pg \<Rightarrow> if s < 500 then Inr (s, pg) else Inl (AxiosError (Some s)))"

text \<open>\<open>ad && ad.id\<close>\<close>

definition has_ad_id :: "page \<Rightarrow> bool" where
  "has_ad_id pg =
     (case pg of
        NoNextData \<Rightarrow> False
      | NextData None \<Rightarrow> False
      | NextData (Some a) \<Rightarrow> (case ad_id a of None \<Rightarrow> False | Some x \<Rightarrow> truthy x))"

text \<open>
  The body of the loop of \<open>verifyProperty\<close> for one URL: \<open>Some b\<close> is \<open>return b\<close>, and
  \<open>None\<close> goes on to the next URL (the \<open>continue\<close>, and the end of the \<open>catch\<close> block).
\<close>

definition verify_url :: "http_outcome \<Rightarrow> bool option" where
  "verify_url h =
     (case axios_get_below_500 h of
        Inr (s, pg) \<Rightarrow>
          if s = 404 then Some False
          else if s = 403 then Some True
          else if has_ad_id pg then Some True
          else None
      | Inl (AxiosError (Some s)) \<Rightarrow> if s = 404 then Some False else None
      | Inl err \<Rightarrow> None)"

text \<open>
  \<open>verifyProperty\<close>: the loop over the URL forms, and the \<open>return false\<close> after it
  (``All URLs failed without clear 404 - assume inactive'').
\<close>

fun verifyProperty_urls :: "(string \<Rightarrow> http_outcome) \<Rightarrow> string list \<Rightarrow> bool" where
  "verifyProperty_urls get [] = False"
| "verifyProperty_urls get (u # us) =
     (case verify_url (get u) of
        Some b \<Rightarrow> b
      | None \<Rightarrow> verifyProperty_urls get us)"

definition verifyProperty :: "(string \<Rightarrow> http_outcome) \<Rightarrow> listing_id \<Rightarrow> bool" where
  "verifyProperty get i = verifyProperty_urls get (listing_urls i)"

record verifier =
  v_queue :: queue
  v_calls :: "call list"
  verifiedInactiveCount :: nat
  foundActiveCount :: nat

definition v_called :: "call \<Rightarrow> verifier \<Rightarrow> verifier" where
  "v_called c v = v\<lparr>v_calls := v_calls v @ [c]\<rparr>"

text \<open>\<open>await this.queue.markVerifiedInactive(id); this.verifiedInactiveCount++; return true\<close>\<close>

definition mark_inactive_step :: "env \<Rightarrow> listing_id \<Rightarrow> verifier \<Rightarrow> bool \<times> verifier" where
  "mark_inactive_step e i v =
     (let v1 = v_called (MarkVerifiedInactive i) v in
      if queue_fails e OpMarkVerifiedInactive then (False, v1)
      else (True, v1\<lparr>v_queue := markVerifiedInactive (v_queue v1) i,
                     verifiedInactiveCount := verifiedInactiveCount v1 + 1\<rparr>))"

text \<open>
  \<open>processMissingProperty\<close>: every throw inside is caught and makes it return false.
\<close>

definition processMissingProperty :: "env \<Rightarrow> listing_id \<Rightarrow> verifier \<Rightarrow> bool \<times> verifier" where
  "processMissingProperty e i v =
     (if verifyProperty (http e) i
      then
        (let v1 = v_called (UpdateLastSeen i) v in
         if queue_fails e OpUpdateLastSeen then (False, v1)
         else (True, v1\<lparr>v_queue := updateLastSeen (v_queue v1) i (clock e),
                        foundActiveCount := foundActiveCount v1 + 1\<rparr>))
      else if apiKey e \<noteq> []
      then
        (let v1 = v_called (MarkPropertyInactive config_portal i config_country ''not_found'') v
         in case markPropertyInactive e config_portal i config_country ''not_found'' of
              Inl err \<Rightarrow> (False, v1)
            | Inr u \<Rightarrow> mark_inactive_step e i v1)
      else mark_inactive_step e i v)"

text \<open>\<open>start\<close> of the Verifier, on the missing queue.\<close>

fun verifier_loop ::
    "nat \<Rightarrow> verifier \<Rightarrow> poll list \<Rightarrow> loop_end \<times> nat \<times> verifier \<times> poll list" where
  "verifier_loop c v [] = (ScriptExhausted, c, v, [])"
| "verifier_loop c v (StopCalled # ps) = (LoopExited, c, v, ps)"
| "verifier_loop c v (PollThrows # ps) = verifier_loop c v ps"
| "verifier_loop c v (PollEmpty stats_throw # ps) =
     (if c + 1 \<ge> maxEmptyChecks then (LoopExited, c + 1, v, ps)
      else if stats_throw then verifier_loop (c + 1) v ps
      else verifier_loop (c + 1) v ps)"
| "verifier_loop c v (PollId i e # ps) =
     (if i = []
      then (if c + 1 \<ge> maxEmptyChecks then (LoopExited, c + 1, v, ps)
            else verifier_loop (c + 1) v ps)
      else verifier_loop 0 (snd (processMissingProperty e i v)) ps)"

definition verifier_start ::
    "verifier \<Rightarrow> poll list \<Rightarrow> loop_end \<times> nat \<times> verifier \<times> poll list" where
  "verifier_start v ps = verifier_loop 0 v ps"

text \<open>The polls that the loops take for an empty queue (\<open>!id\<close>).\<close>

fun pop_empty :: "poll \<Rightarrow> bool" where
  "pop_empty (PollEmpty b) = True"
| "pop_empty (PollId i e) = (i = [])"
| "pop_empty p = False"

section \<open>The Coordinator: OtodomCoordinator.discoverCity (src/unnamed/part_005)\<close>

text \<open>
  What the Coordinator's own \<open>fetchListingIds(city, listingType, offset, 50)\<close> gives at each
  offset (a page, or a throw), and whether pushing the ids of that page to the queue fails.
\<close>

record source =
  page_at :: "int \<Rightarrow> js_error + listing_page"
  push_fails :: "int \<Rightarrow> bool"

record coordinator =
  c_queue :: queue
  c_offsets :: "int list"  \<comment> \<open>the offsets requested, in order\<close>

definition page_limit :: int where
  "page_limit = 50"

text \<open>\<open>await this.queue.pushListingIds(page.ids)\<close>\<close>

definition push_page ::
    "source \<Rightarrow> int \<Rightarrow> string list \<Rightarrow> coordinator \<Rightarrow> (js_error + nat) \<times> coordinator" where
  "push_page src off page_ids c =
     (if push_fails src off then (Inl TransportError, c)
      else (case pushListingIds (c_queue c) page_ids of
              (q, n) \<Rightarrow> (Inr n, c\<lparr>c_queue := q\<rparr>)))"

text \<open>
  The loop \<open>while (offset < firstPage.total)\<close>, with \<open>totalAdded\<close> as accumulator; \<open>Inl\<close> is
  a throw.
\<close>

function discover_remaining ::
    "source \<Rightarrow> int \<Rightarrow> int \<Rightarrow> nat \<Rightarrow> coordinator \<Rightarrow> (js_error + nat) \<times> coordinator" where
  "discover_remaining src first_total off added c =
     (if off < first_total
      then
        (let c1 = c\<lparr>c_offsets := c_offsets c @ [off]\<rparr> in
         case page_at src off of
           Inl err \<Rightarrow> (Inl err, c1)
         | Inr pg \<Rightarrow>
             (case push_page src off (ids pg) c1 of
                (Inl err, c2) \<Rightarrow> (Inl err, c2)
              | (Inr n, c2) \<Rightarrow>
                  discover_remaining src first_total (off + page_limit) (added + n) c2))
      else (Inr added, c))"
  by pat_completeness auto
termination
  by (relation "measure (\<lambda>(src, first_total, off, added, c). nat (first_total - off))")
     (auto simp: page_limit_def)

text \<open>\<open>discoverCity\<close>: every throw is caught and makes it return 0.\<close>

definition discoverCity :: "source \<Rightarrow> coordinator \<Rightarrow> nat \<times> coordinator" where
  "discoverCity src c =
     (let c1 = c\<lparr>c_offsets := c_offsets c @ [0]\<rparr> in
      case page_at src 0 of
        Inl err \<Rightarrow> (0, c1)
      | Inr firstPage \<Rightarrow>
          if total firstPage = 0 then (0, c1)
          else
            (case push_page src 0 (ids firstPage) c1 of
               (Inl err, c2) \<Rightarrow> (0, c2)
             | (Inr added, c2) \<Rightarrow>
                 (case discover_remaining src (total firstPage) (0 + page_limit) added c2 of
                    (Inl err, c3) \<Rightarrow> (0, c3)
                  | (Inr totalAdded, c3) \<Rightarrow> (totalAdded, c3))))"

text \<open>A source all of whose pages are empty and advertise the same total.\<close>

definition empty_pages :: "int \<Rightarrow> source" where
  "empty_pages t = \<lparr>page_at = (\<lambda>off. Inr \<lparr>ids = [], total = t\<rparr>), push_fails = (\<lambda>off. False)\<rparr>"

definition fresh_coordinator :: coordinator where
  "fresh_coordinator = \<lparr>c_queue = empty_queue, c_offsets = []\<rparr>"

section \<open>Retry delays\<close>

subsection \<open>OtodomCityScraper.scrapeCity (src/unnamed/part_002)\<close>






subsection \<open>BaseApiClient.request (src/unnamed/part_004)\<close>










section \<open>Sample surroundings\<close>

definition sample_property :: property where
  "sample_property = constructor_property\<lparr>propertyType := ''mieszkanie''\<rparr>"

definition sample_ad :: ad where
  "sample_ad = \<lparr>ad_id = Some (JNumber 1), ad_json = ''{}'', ad_property = Some sample_property\<rparr>"

definition sample_fetched :: fetched where
  "sample_fetched = \<lparr>fetched_id = JNumber 1, rawData = sample_ad\<rparr>"

text \<open>Every URL answers 200 with the sample ad; the queue and the Core Service work.\<close>

definition sample_env :: env where
  "sample_env =
     \<lparr>apiKey = ''key'', lowerCase = ascii_toLowerCase,
      http = (\<lambda>u. Status 200 (NextData (Some sample_ad))),
      queue_fails = (\<lambda>op. False), sink_error = None, clock = 0\<rparr>"

definition fresh_worker :: worker where
  "fresh_worker =
     \<lparr>w_queue = empty_queue, w_calls = [], processedCount = 0, failedCount = 0,
      changedCount = 0, unchangedCount = 0\<rparr>"

definition fresh_verifier :: verifier where
  "fresh_verifier =
     \<lparr>v_queue = empty_queue, v_calls = [], verifiedInactiveCount = 0, foundActiveCount = 0\<rparr>"

text \<open>The same with the sample ad already stored as the snapshot of listing 1.\<close>

definition seen_worker :: worker where
  "seen_worker = fresh_worker\<lparr>w_queue := storePropertySnapshot empty_queue ''1'' sample_ad 0\<rparr>"

text \<open>
  Other answers of the site: 403 on every URL, 404 on every URL, no response at all, a page
  without ad data; and the sample surroundings without an API key.
\<close>

definition denied_env :: env where
  "denied_env = sample_env\<lparr>http := (\<lambda>u. Status 403 NoNextData)\<rparr>"

definition gone_env :: env where
  "gone_env = sample_env\<lparr>http := (\<lambda>u. Status 404 NoNextData)\<rparr>"

definition unreachable_env :: env where
  "unreachable_env = sample_env\<lparr>http := (\<lambda>u. NoResponse)\<rparr>"

definition no_ad_env :: env where
  "no_ad_env = sample_env\<lparr>http := (\<lambda>u. Status 200 (NextData None))\<rparr>"

definition keyless_env :: env where
  "keyless_env = sample_env\<lparr>apiKey := []\<rparr>"

text \<open>
  A partition whose first page advertises 120 listings and whose later pages advertise 60.
\<close>

definition shrinking_pages :: source where
  "shrinking_pages =
     \<lparr>page_at = (\<lambda>off. Inr \<lparr>ids = [''a'', ''b''], total = (if off = 0 then 120 else 60)\<rparr>),
      push_fails = (\<lambda>off. False)\<rparr>"


text \<open>The queue works except for one operation.\<close>

definition failing_only :: "queue_op \<Rightarrow> env \<Rightarrow> env" where
  "failing_only op e = e\<lparr>queue_fails := (\<lambda>x. x = op)\<rparr>"

section \<open>Theorems\<close>

subsection \<open>fetchListingIds never throws\<close>

lemma fetchListingIds_returns: "\<exists>p. fetchListingIds h = Inr p"
  by (simp add: fetchListingIds_def split: sum.splits)

text \<open>
  C9. \<open>OtodomCityScraper.fetchListingIds\<close> is total over the outcomes of the fetch: it
  always returns a page and never throws; on every rejected request (HTTP or parse error), on
  every response without \<open>searchAds.items\<close>, and also when reading the items throws, the
  page is \<open>{ ids: [], total: 0 }\<close>, which is exactly what it returns for a legitimately
  empty page (an empty \<open>items\<close> array with no total), so the caller cannot tell them apart.
\<close>

theorem fetchListingIds_total:
  "(\<exists>p. fetchListingIds h = Inr p)
   \<and> fetchListingIds (SearchFails e) = Inr empty_page
   \<and> fetchListingIds (SearchData \<lparr>items = ItemsAbsent, totalItems = t\<rparr>) = Inr empty_page
   \<and> fetchListingIds (SearchData \<lparr>items = ItemsNotArray, totalItems = t\<rparr>) = Inr empty_page
   \<and> fetchListingIds (SearchData \<lparr>items = ItemsArray (xs @ None # ys), totalItems = t\<rparr>)
       = Inr empty_page
   \<and> fetchListingIds (SearchFails e)
       = fetchListingIds (SearchData \<lparr>items = ItemsArray [], totalItems = None\<rparr>)"
proof -
  have bad: "map_item_ids (xs @ None # ys) = Inl TypeError"
    by (induction xs rule: map_item_ids.induct) simp_all
  show ?thesis
    using fetchListingIds_returns [of h] bad
    by (simp add: fetchListingIds_def fetchListingIds_try_def empty_page_def total_or_zero_def)
qed

subsection \<open>transformToStandard\<close>

lemma js_get_propertyTypeMap:
  "js_get propertyTypeMap k \<in> {None} \<union> Some ` standard_property_types
     \<or> k \<in> set object_prototype_keys"
  by (auto simp: js_get_def propertyTypeMap_def standard_property_types_def
           split: option.splits if_splits)

text \<open>
  Apart from the keys inherited from \<open>Object.prototype\<close>, the property type is one of the
  five strings; the transaction type of a typed listing and the country always are.
\<close>

lemma js_get_transactionTypeMap:
  "js_get transactionTypeMap k \<in> {None} \<union> Some ` standard_transaction_types
     \<or> k \<in> set object_prototype_keys"
  by (auto simp: js_get_def transactionTypeMap_def standard_transaction_types_def
           split: option.splits if_splits)

lemma transformToStandard_property_type:
  assumes "lower (propertyType p) \<notin> set object_prototype_keys"
  shows "property_type (transformToStandard lower p) \<in> standard_property_types"
  using assms js_get_propertyTypeMap [of "lower (propertyType p)"]
  by (auto simp: transformToStandard_def standardPropertyType_def js_or_def
        standard_property_types_def split: option.splits js_value.splits if_splits)

lemma transformToStandard_transaction_type:
  assumes "listingType p \<notin> set object_prototype_keys"
  shows "transaction_type (transformToStandard lower p) \<in> standard_transaction_types"
  using assms js_get_transactionTypeMap [of "listingType p"]
  by (auto simp: transformToStandard_def transactionType_def js_or_def
        standard_transaction_types_def split: option.splits js_value.splits if_splits)

lemma transformToStandard_country:
  "loc_country (std_location (transformToStandard lower p)) = ''poland''"
  by (simp add: transformToStandard_def)

text \<open>
  C10. The claim is that \<open>property_type\<close> is one of apartment, house, land, commercial,
  other and \<open>transaction_type\<close> one of sale, rent, lease, other for every input. For the
  property type \<open>'constructor'\<close> the lookup \<open>propertyTypeMap['constructor']\<close> finds the
  member inherited from \<open>Object.prototype\<close>, which is truthy, so the \<open>|| 'other'\<close> default
  is not taken and \<open>property_type\<close> is not one of the five strings; for the listing type
  \<open>'constructor'\<close> the same happens to \<open>transaction_type\<close>. The country is as claimed.
\<close>

theorem transformToStandard_constructor:
  "property_type (transformToStandard ascii_toLowerCase constructor_property)
     = JInherited ''constructor''
   \<and> property_type (transformToStandard ascii_toLowerCase constructor_property)
       \<notin> standard_property_types
   \<and> transaction_type (transformToStandard ascii_toLowerCase constructor_property)
       = JString ''sale''
   \<and> loc_country (std_location (transformToStandard ascii_toLowerCase constructor_property))
       = ''poland''
   \<and> transaction_type (transformToStandard ascii_toLowerCase constructor_listing)
       = JInherited ''constructor''
   \<and> transaction_type (transformToStandard ascii_toLowerCase constructor_listing)
       \<notin> standard_transaction_types
   \<and> property_type (transformToStandard ascii_toLowerCase constructor_listing)
       = JString ''apartment''"
  by (simp add: transformToStandard_def constructor_property_def constructor_listing_def
        standardPropertyType_def transactionType_def js_get_def js_or_def propertyTypeMap_def
        transactionTypeMap_def object_prototype_keys_def ascii_toLowerCase_def lower_char_def
        standard_property_types_def standard_transaction_types_def image_iff)

subsection \<open>Sample surroundings, evaluated\<close>

lemmas sample_defs = sample_env_def sample_fetched_def sample_ad_def fresh_worker_def
  seen_worker_def empty_queue_def fresh_verifier_def denied_env_def gone_env_def
  unreachable_env_def no_ad_env_def keyless_env_def failing_only_def

lemmas fetch_defs = fetchPropertyDetail_def listing_urls_def axios_get_def

lemmas worker_defs = processListing_def processListing_try_def changed_step_def
  mark_processed_step_def called_def transform_fetched_def

lemmas verifier_defs = processMissingProperty_def mark_inactive_step_def v_called_def
  verifyProperty_def verify_url_def listing_urls_def axios_get_below_500_def has_ad_id_def
  markPropertyInactive_def

subsection \<open>The Worker: one listing\<close>

text \<open>
  C3, as the code has it. When the queue calls of the attempt succeed, the id is not yet
  processed, the detail fetch succeeds and the fetched payload is identical to the stored
  snapshot, then \<open>hasPropertyChanged\<close> is false,
  the Worker calls \<open>isProcessed\<close>, \<open>hasPropertyChanged\<close> and \<open>markProcessed\<close> and nothing
  else (so \<open>sendToCoreService\<close> is not called), the unchanged counter goes up by one and the
  id is in the processed set.
\<close>

theorem processListing_unchanged:
  assumes up: "\<forall>op. \<not> queue_fails e op"
    and fresh: "i \<notin> processed (w_queue w)"
    and fetch: "fetchPropertyDetail (http e) i = Inr (Some f)"
    and same: "snapshots (w_queue w) i = Some (rawData f)"
  shows "\<not> hasPropertyChanged (w_queue w) i (rawData f)
    \<and> fst (processListing e i w) = Inr True
    \<and> w_calls (snd (processListing e i w))
        = w_calls w @ [IsProcessed i, HasPropertyChanged i (rawData f), MarkProcessed i]
    \<and> unchangedCount (snd (processListing e i w)) = unchangedCount w + 1
    \<and> processedCount (snd (processListing e i w)) = processedCount w + 1
    \<and> i \<in> processed (w_queue (snd (processListing e i w)))
    \<and> snapshots (w_queue (snd (processListing e i w))) = snapshots (w_queue w)"
  using assms
  by (simp add: worker_defs hasPropertyChanged_def isProcessed_def markProcessed_def)

theorem processListing_unchanged_witness:
  "(\<forall>op. \<not> queue_fails sample_env op)
   \<and> ''1'' \<notin> processed (w_queue seen_worker)
   \<and> fetchPropertyDetail (http sample_env) ''1'' = Inr (Some sample_fetched)
   \<and> snapshots (w_queue seen_worker) ''1'' = Some (rawData sample_fetched)
   \<and> \<not> hasPropertyChanged (w_queue seen_worker) ''1'' sample_ad
   \<and> w_calls (snd (processListing sample_env ''1'' seen_worker))
       = [IsProcessed ''1'', HasPropertyChanged ''1'' sample_ad, MarkProcessed ''1'']
   \<and> unchangedCount (snd (processListing sample_env ''1'' seen_worker)) = 1
   \<and> ''1'' \<in> processed (w_queue (snd (processListing sample_env ''1'' seen_worker)))"
proof -
  have h1: "\<forall>op. \<not> queue_fails sample_env op" by (simp add: sample_defs)
  have h2: "''1'' \<notin> processed (w_queue seen_worker)"
    by (simp add: sample_defs storePropertySnapshot_def)
  have h3: "fetchPropertyDetail (http sample_env) ''1'' = Inr (Some sample_fetched)"
    by (simp add: sample_defs fetch_defs)
  have h4: "snapshots (w_queue seen_worker) ''1'' = Some (rawData sample_fetched)"
    by (simp add: sample_defs storePropertySnapshot_def)
  from processListing_unchanged [OF h1 h2 h3 h4] show ?thesis
    using h1 h2 h3 h4 by (simp add: sample_defs)
qed

text \<open>
  C3 as stated fails when \<open>markProcessed\<close> throws: it is called inside the \<open>try\<close> block, so
  the \<open>catch\<close> block requeues the id, which is not marked processed, although the fetch
  succeeded and the payload is identical to the snapshot.
\<close>

theorem unchanged_listing_requeued:
  "fetchPropertyDetail (http (failing_only OpMarkProcessed sample_env)) ''1''
     = Inr (Some sample_fetched)
   \<and> snapshots (w_queue seen_worker) ''1'' = Some (rawData sample_fetched)
   \<and> fst (processListing (failing_only OpMarkProcessed sample_env) ''1'' seen_worker)
       = Inr False
   \<and> w_calls (snd (processListing (failing_only OpMarkProcessed sample_env) ''1'' seen_worker))
       = [IsProcessed ''1'', HasPropertyChanged ''1'' sample_ad, MarkProcessed ''1'',
          RequeueWithRetry ''1'' 3]
   \<and> ''1'' \<notin> processed
        (w_queue (snd (processListing (failing_only OpMarkProcessed sample_env) ''1''
                         seen_worker)))
   \<and> pending (w_queue (snd (processListing (failing_only OpMarkProcessed sample_env) ''1''
                               seen_worker))) = [''1'']"
  by (simp add: sample_defs fetch_defs worker_defs isProcessed_def hasPropertyChanged_def
        storePropertySnapshot_def requeueWithRetry_def retry_count_def)

text \<open>
  C2, as the code has it. When the queue and the Core Service work, the id is not yet
  processed, the detail fetch succeeds, the payload differs from the stored snapshot (or
  there is none) and the transformation does not throw, then \<open>hasPropertyChanged\<close> is true
  and the Worker's calls are \<open>isProcessed\<close>, \<open>hasPropertyChanged\<close>, then exactly one
  \<open>sendToCoreService\<close> if an API key is configured and none if it is not, then
  \<open>storePropertySnapshot\<close> with the new payload and \<open>markProcessed\<close>; the snapshot of the id
  is the new payload and the changed counter goes up by one.
\<close>

theorem processListing_changed:
  assumes up: "\<forall>op. \<not> queue_fails e op"
    and fresh: "i \<notin> processed (w_queue w)"
    and fetch: "fetchPropertyDetail (http e) i = Inr (Some f)"
    and differs: "snapshots (w_queue w) i \<noteq> Some (rawData f)"
    and typed: "ad_property (rawData f) = Some p"
    and sink: "sink_error e = None"
  shows "hasPropertyChanged (w_queue w) i (rawData f)
    \<and> fst (processListing e i w) = Inr True
    \<and> w_calls (snd (processListing e i w))
        = w_calls w @ [IsProcessed i, HasPropertyChanged i (rawData f)]
          @ (if apiKey e = [] then []
             else [SendToCoreService (worker_payload f (transformToStandard (lowerCase e) p))])
          @ [StorePropertySnapshot i (rawData f), MarkProcessed i]
    \<and> snapshots (w_queue (snd (processListing e i w))) i = Some (rawData f)
    \<and> changedCount (snd (processListing e i w)) = changedCount w + 1
    \<and> i \<in> processed (w_queue (snd (processListing e i w)))"
proof -
  have ch: "hasPropertyChanged (w_queue w) i (rawData f)"
    using differs by (auto simp: hasPropertyChanged_def split: option.splits)
  show ?thesis
    using up fresh fetch typed sink ch
    by (simp add: worker_defs isProcessed_def markProcessed_def storePropertySnapshot_def
          sendToCoreService_def)
qed

theorem processListing_changed_witness:
  "(\<forall>op. \<not> queue_fails sample_env op)
   \<and> ''1'' \<notin> processed (w_queue fresh_worker)
   \<and> fetchPropertyDetail (http sample_env) ''1'' = Inr (Some sample_fetched)
   \<and> snapshots (w_queue fresh_worker) ''1'' \<noteq> Some (rawData sample_fetched)
   \<and> ad_property (rawData sample_fetched) = Some sample_property
   \<and> sink_error sample_env = None
   \<and> w_calls (snd (processListing sample_env ''1'' fresh_worker))
       = [IsProcessed ''1'', HasPropertyChanged ''1'' sample_ad,
          SendToCoreService
            (worker_payload sample_fetched (transformToStandard ascii_toLowerCase sample_property)),
          StorePropertySnapshot ''1'' sample_ad, MarkProcessed ''1'']
   \<and> snapshots (w_queue (snd (processListing sample_env ''1'' fresh_worker))) ''1''
       = Some sample_ad"
proof -
  have h1: "\<forall>op. \<not> queue_fails sample_env op" by (simp add: sample_defs)
  have h2: "''1'' \<notin> processed (w_queue fresh_worker)" by (simp add: sample_defs)
  have h3: "fetchPropertyDetail (http sample_env) ''1'' = Inr (Some sample_fetched)"
    by (simp add: sample_defs fetch_defs)
  have h4: "snapshots (w_queue fresh_worker) ''1'' \<noteq> Some (rawData sample_fetched)"
    by (simp add: sample_defs)
  have h5: "ad_property (rawData sample_fetched) = Some sample_property"
    by (simp add: sample_defs)
  have h6: "sink_error sample_env = None" by (simp add: sample_defs)
  from processListing_changed [OF h1 h2 h3 h4 h5 h6] show ?thesis
    using h1 h2 h3 h4 h5 h6 by (simp add: sample_defs)
qed

text \<open>
  C2 as stated fails where no API key is configured (the default of \<open>config.apiKey\<close> is the
  empty string): the fetch succeeds, there is no snapshot, the listing is processed and its
  snapshot stored, and \<open>sendToCoreService\<close> was not called at all.
\<close>

theorem keyless_worker_skips_ingest:
  "fetchPropertyDetail (http keyless_env) ''1'' = Inr (Some sample_fetched)
   \<and> snapshots (w_queue fresh_worker) ''1'' = None
   \<and> hasPropertyChanged (w_queue fresh_worker) ''1'' (rawData sample_fetched)
   \<and> fst (processListing keyless_env ''1'' fresh_worker) = Inr True
   \<and> length (filter is_ingest (w_calls (snd (processListing keyless_env ''1'' fresh_worker))))
       \<noteq> 1
   \<and> snapshots (w_queue (snd (processListing keyless_env ''1'' fresh_worker))) ''1''
       = Some sample_ad"
  by (simp add: sample_defs fetch_defs worker_defs isProcessed_def hasPropertyChanged_def
        storePropertySnapshot_def markProcessed_def)

lemma fetchPropertyDetail_not_found:
  assumes "\<forall>u \<in> set (listing_urls i). \<exists>pg. get u = Status 404 pg"
  shows "fetchPropertyDetail get i = Inr None"
  using assms by (auto simp: fetchPropertyDetail_def listing_urls_def axios_get_def)

text \<open>
  C4, as the code has it. When every URL form of the id answers 404, the detail fetch
  returns \<open>null\<close>; when the queue calls of the attempt succeed the Worker's calls are then \<open>isProcessed\<close> and one \<open>markFailed(id, 'Not
  found')\<close> and nothing else: no \<open>requeueWithRetry\<close>, and the pending and the missing channel
  are as before; the id is recorded as failed once and \<open>processListing\<close> returns false.
\<close>

theorem processListing_not_found:
  assumes up: "\<forall>op. \<not> queue_fails e op"
    and fresh: "i \<notin> processed (w_queue w)"
    and nf: "\<forall>u \<in> set (listing_urls i). \<exists>pg. http e u = Status 404 pg"
  shows "fetchPropertyDetail (http e) i = Inr None
    \<and> fst (processListing e i w) = Inr False
    \<and> w_calls (snd (processListing e i w))
        = w_calls w @ [IsProcessed i, MarkFailed i ''Not found'']
    \<and> pending (w_queue (snd (processListing e i w))) = pending (w_queue w)
    \<and> missing (w_queue (snd (processListing e i w))) = missing (w_queue w)
    \<and> failed (w_queue (snd (processListing e i w))) = failed (w_queue w) @ [(i, ''Not found'')]"
  using up fresh fetchPropertyDetail_not_found [OF nf]
  by (simp add: worker_defs isProcessed_def markFailed_def)

theorem processListing_not_found_witness:
  "(\<forall>op. \<not> queue_fails gone_env op)
   \<and> ''42'' \<notin> processed (w_queue fresh_worker)
   \<and> map (http gone_env) (listing_urls ''42'') = [Status 404 NoNextData, Status 404 NoNextData]
   \<and> fst (processListing gone_env ''42'' fresh_worker) = Inr False
   \<and> w_calls (snd (processListing gone_env ''42'' fresh_worker))
       = [IsProcessed ''42'', MarkFailed ''42'' ''Not found'']
   \<and> pending (w_queue (snd (processListing gone_env ''42'' fresh_worker))) = []
   \<and> missing (w_queue (snd (processListing gone_env ''42'' fresh_worker))) = []"
proof -
  have h1: "\<forall>op. \<not> queue_fails gone_env op" by (simp add: sample_defs)
  have h2: "''42'' \<notin> processed (w_queue fresh_worker)" by (simp add: sample_defs)
  have h3: "\<forall>u \<in> set (listing_urls ''42''). \<exists>pg. http gone_env u = Status 404 pg"
    by (simp add: sample_defs)
  have h4: "map (http gone_env) (listing_urls ''42'') = [Status 404 NoNextData, Status 404 NoNextData]"
    by (simp add: sample_defs listing_urls_def)
  from processListing_not_found [OF h1 h2 h3] show ?thesis
    using h1 h2 h4 by (simp add: sample_defs)
qed

text \<open>
  C4 as stated fails when \<open>markFailed\<close> throws: it is called inside the \<open>try\<close> block, so
  the \<open>catch\<close> block calls \<open>requeueWithRetry\<close> and the id that was not found is back in
  the pending channel, and not recorded as failed.
\<close>

theorem not_found_listing_requeued:
  "map (http (failing_only OpMarkFailed gone_env)) (listing_urls ''42'')
     = [Status 404 NoNextData, Status 404 NoNextData]
   \<and> fetchPropertyDetail (http (failing_only OpMarkFailed gone_env)) ''42'' = Inr None
   \<and> w_calls (snd (processListing (failing_only OpMarkFailed gone_env) ''42'' fresh_worker))
       = [IsProcessed ''42'', MarkFailed ''42'' ''Not found'', RequeueWithRetry ''42'' 3]
   \<and> pending (w_queue (snd (processListing (failing_only OpMarkFailed gone_env) ''42''
                               fresh_worker))) = [''42'']
   \<and> failed (w_queue (snd (processListing (failing_only OpMarkFailed gone_env) ''42''
                              fresh_worker))) = []"
  by (simp add: sample_defs fetch_defs worker_defs isProcessed_def requeueWithRetry_def
        retry_count_def)




subsection \<open>The Verifier: one missing listing\<close>

text \<open>
  C1, as the code has it. When the existence check ends on a 403, that is when the first
  URL form is answered 403, or the first is inconclusive (no 404, no 403, no ad data) and
  the second is answered 403, \<open>verifyProperty\<close> assumes that the listing exists: the
  Verifier calls \<open>updateLastSeen\<close> and nothing else, so neither \<open>markPropertyInactive\<close>
  nor \<open>markVerifiedInactive\<close>, whether or not the queue works.
\<close>

theorem processMissingProperty_access_denied:
  assumes "http e (''https://www.otodom.pl/pl/oferta/'' @ i) = Status 403 pg
         \<or> (verify_url (http e (''https://www.otodom.pl/pl/oferta/'' @ i)) = None
            \<and> http e (''https://www.otodom.pl/pl/oferta/ID'' @ i) = Status 403 pg)"
  shows "verifyProperty (http e) i
    \<and> v_calls (snd (processMissingProperty e i v)) = v_calls v @ [UpdateLastSeen i]
    \<and> filter is_deactivation (v_calls (snd (processMissingProperty e i v)))
        = filter is_deactivation (v_calls v)
    \<and> verifiedInactive (v_queue (snd (processMissingProperty e i v)))
        = verifiedInactive (v_queue v)
    \<and> verifiedInactiveCount (snd (processMissingProperty e i v)) = verifiedInactiveCount v"
proof -
  have "verify_url (Status 403 pg) = Some True"
    by (simp add: verify_url_def axios_get_below_500_def)
  with assms have "verifyProperty (http e) i"
    by (auto simp: verifyProperty_def listing_urls_def)
  then show ?thesis
    by (simp add: processMissingProperty_def v_called_def updateLastSeen_def Let_def)
qed

theorem processMissingProperty_access_denied_witness:
  "(http denied_env (''https://www.otodom.pl/pl/oferta/'' @ ''7'') = Status 403 NoNextData
      \<or> (verify_url (http denied_env (''https://www.otodom.pl/pl/oferta/'' @ ''7'')) = None
          \<and> http denied_env (''https://www.otodom.pl/pl/oferta/ID'' @ ''7'')
              = Status 403 NoNextData))
   \<and> verifyProperty (http denied_env) ''7''
   \<and> v_calls (snd (processMissingProperty denied_env ''7'' fresh_verifier))
       = [UpdateLastSeen ''7'']
   \<and> verifiedInactive (v_queue (snd (processMissingProperty denied_env ''7'' fresh_verifier)))
       = {}"
proof -
  have h: "http denied_env (''https://www.otodom.pl/pl/oferta/'' @ ''7'') = Status 403 NoNextData
      \<or> (verify_url (http denied_env (''https://www.otodom.pl/pl/oferta/'' @ ''7'')) = None
          \<and> http denied_env (''https://www.otodom.pl/pl/oferta/ID'' @ ''7'')
              = Status 403 NoNextData)"
    by (simp add: sample_defs)
  from processMissingProperty_access_denied [OF h, of fresh_verifier] show ?thesis
    using h by (simp add: sample_defs)
qed

text \<open>
  C1 as stated fails on two of its own examples: when no URL form gets a response (a
  network error on each), and when each answers 200 with a page without ad data,
  \<open>verifyProperty\<close> returns false and the Verifier calls \<open>markPropertyInactive\<close> and
  \<open>markVerifiedInactive\<close> for the id.
\<close>

theorem processMissingProperty_deactivates_unverified:
  "\<not> verifyProperty (http unreachable_env) ''7''
   \<and> v_calls (snd (processMissingProperty unreachable_env ''7'' fresh_verifier))
       = [MarkPropertyInactive ''otodom'' ''7'' ''poland'' ''not_found'',
          MarkVerifiedInactive ''7'']
   \<and> ''7'' \<in> verifiedInactive
               (v_queue (snd (processMissingProperty unreachable_env ''7'' fresh_verifier)))
   \<and> \<not> verifyProperty (http no_ad_env) ''7''
   \<and> v_calls (snd (processMissingProperty no_ad_env ''7'' fresh_verifier))
       = [MarkPropertyInactive ''otodom'' ''7'' ''poland'' ''not_found'',
          MarkVerifiedInactive ''7'']
   \<and> ''7'' \<in> verifiedInactive
               (v_queue (snd (processMissingProperty no_ad_env ''7'' fresh_verifier)))"
  by (simp add: sample_defs verifier_defs markVerifiedInactive_def config_portal_def
        config_country_def)

subsection \<open>The loops of the Worker and of the Verifier\<close>

lemma worker_loop_pop_empty:
  "pop_empty p \<Longrightarrow>
   worker_loop c w (p # ps)
     = (if c + 1 \<ge> maxEmptyChecks then (LoopExited, c + 1, w, ps)
        else worker_loop (c + 1) w ps)"
  by (cases p) auto

lemma verifier_loop_pop_empty:
  "pop_empty p \<Longrightarrow>
   verifier_loop c v (p # ps)
     = (if c + 1 \<ge> maxEmptyChecks then (LoopExited, c + 1, v, ps)
        else verifier_loop (c + 1) v ps)"
  by (cases p) auto

text \<open>Below the limit, empty polls are counted and nothing else happens.\<close>

lemma worker_loop_counts:
  "list_all pop_empty es \<Longrightarrow> c + length es < maxEmptyChecks \<Longrightarrow>
   worker_loop c w (es @ rest) = worker_loop (c + length es) w rest"
proof (induction es arbitrary: c)
  case Nil
  then show ?case by simp
next
  case (Cons p es)
  from Cons.prems have "pop_empty p" "\<not> c + 1 \<ge> maxEmptyChecks" by simp_all
  then have "worker_loop c w ((p # es) @ rest) = worker_loop (c + 1) w (es @ rest)"
    by (simp add: worker_loop_pop_empty)
  also have "\<dots> = worker_loop (c + 1 + length es) w rest"
    using Cons.prems by (intro Cons.IH) simp_all
  finally show ?case by simp
qed

lemma verifier_loop_counts:
  "list_all pop_empty es \<Longrightarrow> c + length es < maxEmptyChecks \<Longrightarrow>
   verifier_loop c v (es @ rest) = verifier_loop (c + length es) v rest"
proof (induction es arbitrary: c)
  case Nil
  then show ?case by simp
next
  case (Cons p es)
  from Cons.prems have "pop_empty p" "\<not> c + 1 \<ge> maxEmptyChecks" by simp_all
  then have "verifier_loop c v ((p # es) @ rest) = verifier_loop (c + 1) v (es @ rest)"
    by (simp add: verifier_loop_pop_empty)
  also have "\<dots> = verifier_loop (c + 1 + length es) v rest"
    using Cons.prems by (intro Cons.IH) simp_all
  finally show ?case by simp
qed

text \<open>The poll that brings the count to the limit leaves the loop.\<close>

lemma worker_loop_empties:
  assumes "c < maxEmptyChecks" and "list_all pop_empty es"
    and "length es = maxEmptyChecks - c"
  shows "worker_loop c w (es @ rest) = (LoopExited, maxEmptyChecks, w, rest)"
proof -
  from assms have "es \<noteq> []" by auto
  then obtain es' p where es: "es = es' @ [p]" by (metis rev_exhaust)
  with assms have p: "pop_empty p" and es': "list_all pop_empty es'"
    and len: "c + length es' + 1 = maxEmptyChecks" by auto
  have "worker_loop c w (es' @ (p # rest)) = worker_loop (c + length es') w (p # rest)"
    using es' len by (intro worker_loop_counts) simp_all
  also have "\<dots> = (LoopExited, maxEmptyChecks, w, rest)"
    using p len by (simp add: worker_loop_pop_empty)
  finally show ?thesis by (simp add: es)
qed

lemma verifier_loop_empties:
  assumes "c < maxEmptyChecks" and "list_all pop_empty es"
    and "length es = maxEmptyChecks - c"
  shows "verifier_loop c v (es @ rest) = (LoopExited, maxEmptyChecks, v, rest)"
proof -
  from assms have "es \<noteq> []" by auto
  then obtain es' p where es: "es = es' @ [p]" by (metis rev_exhaust)
  with assms have p: "pop_empty p" and es': "list_all pop_empty es'"
    and len: "c + length es' + 1 = maxEmptyChecks" by auto
  have "verifier_loop c v (es' @ (p # rest)) = verifier_loop (c + length es') v (p # rest)"
    using es' len by (intro verifier_loop_counts) simp_all
  also have "\<dots> = (LoopExited, maxEmptyChecks, v, rest)"
    using p len by (simp add: verifier_loop_pop_empty)
  finally show ?thesis by (simp add: es)
qed

text \<open>Whatever came before, a full run of empty polls is not survived.\<close>

lemma worker_loop_stops:
  "c < maxEmptyChecks \<Longrightarrow> list_all pop_empty es \<Longrightarrow> length es = maxEmptyChecks \<Longrightarrow>
   fst (worker_loop c w (pre @ es @ rest)) = LoopExited
   \<and> length rest \<le> length (snd (snd (snd (worker_loop c w (pre @ es @ rest)))))"
proof (induction pre arbitrary: c w)
  case Nil
  let ?k = "maxEmptyChecks - c"
  have "worker_loop c w (take ?k es @ (drop ?k es @ rest))
          = (LoopExited, maxEmptyChecks, w, drop ?k es @ rest)"
    using Nil by (intro worker_loop_empties) (auto simp: list_all_iff dest: in_set_takeD)
  then have "worker_loop c w (es @ rest) = (LoopExited, maxEmptyChecks, w, drop ?k es @ rest)"
    by (simp only: append_assoc [symmetric] append_take_drop_id)
  then show ?case by simp
next
  case (Cons p pre)
  show ?case
  proof (cases "pop_empty p")
    case True
    then show ?thesis
      using Cons.prems Cons.IH [of "c + 1" w] by (auto simp: worker_loop_pop_empty)
  next
    case False
    show ?thesis
    proof (cases p)
      case (PollEmpty b)
      with False show ?thesis by simp
    next
      case PollThrows
      then show ?thesis using Cons.prems Cons.IH [of c w] by simp
    next
      case (PollId i e)
      with False have "i \<noteq> []" by simp
      then show ?thesis
        using PollId Cons.prems Cons.IH [of 0 "snd (processListing e i w)"]
        by (simp add: maxEmptyChecks_def)
    next
      case StopCalled
      then show ?thesis by simp
    qed
  qed
qed

lemma verifier_loop_stops:
  "c < maxEmptyChecks \<Longrightarrow> list_all pop_empty es \<Longrightarrow> length es = maxEmptyChecks \<Longrightarrow>
   fst (verifier_loop c v (pre @ es @ rest)) = LoopExited
   \<and> length rest \<le> length (snd (snd (snd (verifier_loop c v (pre @ es @ rest)))))"
proof (induction pre arbitrary: c v)
  case Nil
  let ?k = "maxEmptyChecks - c"
  have "verifier_loop c v (take ?k es @ (drop ?k es @ rest))
          = (LoopExited, maxEmptyChecks, v, drop ?k es @ rest)"
    using Nil by (intro verifier_loop_empties) (auto simp: list_all_iff dest: in_set_takeD)
  then have "verifier_loop c v (es @ rest) = (LoopExited, maxEmptyChecks, v, drop ?k es @ rest)"
    by (simp only: append_assoc [symmetric] append_take_drop_id)
  then show ?case by simp
next
  case (Cons p pre)
  show ?case
  proof (cases "pop_empty p")
    case True
    then show ?thesis
      using Cons.prems Cons.IH [of "c + 1" v] by (auto simp: verifier_loop_pop_empty)
  next
    case False
    show ?thesis
    proof (cases p)
      case (PollEmpty b)
      with False show ?thesis by simp
    next
      case PollThrows
      then show ?thesis using Cons.prems Cons.IH [of c v] by simp
    next
      case (PollId i e)
      with False have "i \<noteq> []" by simp
      then show ?thesis
        using PollId Cons.prems Cons.IH [of 0 "snd (processMissingProperty e i v)"]
        by (simp add: maxEmptyChecks_def)
    next
      case StopCalled
      then show ?thesis by simp
    qed
  qed
qed

text \<open>
  C6, as the code has it. The number of empty polls is the constant ten of both loops.
  In the loop of the Worker and in the loop of the Verifier, a pop that yields a non-empty
  id sets the count of empty polls to zero whatever it was: after it, fewer than ten empty
  polls in a row leave the loop running, with as many counted, and the tenth leaves the
  loop, without reaching the polls after it. The same holds from the start of the loop.
  Whatever polls came before, ten empty polls in a row are not survived. A pop that yields
  the empty string counts as an empty poll.
\<close>

theorem loops_stop_after_empty_polls:
  assumes "list_all pop_empty es" and "length es = maxEmptyChecks"
    and "k < maxEmptyChecks" and "i \<noteq> []"
  shows "maxEmptyChecks = 10
    \<and> worker_loop c w (PollId i e # take k es)
        = (ScriptExhausted, k, snd (processListing e i w), [])
    \<and> worker_loop c w (PollId i e # es @ rest)
        = (LoopExited, maxEmptyChecks, snd (processListing e i w), rest)
    \<and> worker_start w (take k es) = (ScriptExhausted, k, w, [])
    \<and> worker_start w (es @ rest) = (LoopExited, maxEmptyChecks, w, rest)
    \<and> fst (worker_start w (pre @ es @ rest)) = LoopExited
    \<and> length rest \<le> length (snd (snd (snd (worker_start w (pre @ es @ rest)))))
    \<and> verifier_loop c v (PollId i e # take k es)
        = (ScriptExhausted, k, snd (processMissingProperty e i v), [])
    \<and> verifier_loop c v (PollId i e # es @ rest)
        = (LoopExited, maxEmptyChecks, snd (processMissingProperty e i v), rest)
    \<and> verifier_start v (take k es) = (ScriptExhausted, k, v, [])
    \<and> verifier_start v (es @ rest) = (LoopExited, maxEmptyChecks, v, rest)
    \<and> fst (verifier_start v (pre @ es @ rest)) = LoopExited
    \<and> length rest \<le> length (snd (snd (snd (verifier_start v (pre @ es @ rest)))))"
proof -
  have pos: "0 < maxEmptyChecks" by (simp add: maxEmptyChecks_def)
  have tk: "list_all pop_empty (take k es)" "0 + length (take k es) < maxEmptyChecks"
    "length (take k es) = k"
    using assms by (auto simp: list_all_iff dest: in_set_takeD)
  have full: "length es = maxEmptyChecks - 0" using assms by simp
  have w_short: "worker_loop 0 x (take k es) = (ScriptExhausted, k, x, [])" for x
    using worker_loop_counts [OF tk(1) tk(2), of x "[]"] tk(3) by simp
  have v_short: "verifier_loop 0 x (take k es) = (ScriptExhausted, k, x, [])" for x
    using verifier_loop_counts [OF tk(1) tk(2), of x "[]"] tk(3) by simp
  have w_full: "worker_loop 0 x (es @ rest) = (LoopExited, maxEmptyChecks, x, rest)" for x
    by (rule worker_loop_empties [OF pos assms(1) full])
  have v_full: "verifier_loop 0 x (es @ rest) = (LoopExited, maxEmptyChecks, x, rest)" for x
    by (rule verifier_loop_empties [OF pos assms(1) full])
  show ?thesis
    using worker_loop_stops [OF pos assms(1) assms(2), of w pre rest]
      verifier_loop_stops [OF pos assms(1) assms(2), of v pre rest]
      w_short v_short w_full v_full assms(4)
    by (simp add: worker_start_def verifier_start_def maxEmptyChecks_def)
qed

theorem loops_stop_after_empty_polls_witness:
  "list_all pop_empty (replicate 10 (PollEmpty False))
   \<and> length (replicate 10 (PollEmpty False)) = maxEmptyChecks
   \<and> 9 < maxEmptyChecks
   \<and> ''1'' \<noteq> []
   \<and> fst (worker_loop 7 fresh_worker
            (PollId ''1'' sample_env # take 9 (replicate 10 (PollEmpty False))))
       = ScriptExhausted
   \<and> fst (worker_loop 7 fresh_worker
            (PollId ''1'' sample_env # replicate 10 (PollEmpty False)
               @ [PollId ''2'' sample_env])) = LoopExited
   \<and> fst (verifier_loop 7 fresh_verifier
            (PollId ''1'' sample_env # take 9 (replicate 10 (PollEmpty False))))
       = ScriptExhausted
   \<and> fst (verifier_loop 7 fresh_verifier
            (PollId ''1'' sample_env # replicate 10 (PollEmpty False)
               @ [PollId ''2'' sample_env])) = LoopExited"
proof -
  have h1: "list_all pop_empty (replicate 10 (PollEmpty False))"
    by (simp add: list_all_iff)
  have h2: "length (replicate 10 (PollEmpty False)) = maxEmptyChecks"
    by (simp add: maxEmptyChecks_def)
  have h3: "9 < maxEmptyChecks" by (simp add: maxEmptyChecks_def)
  have h4: "''1'' \<noteq> []" by simp
  from loops_stop_after_empty_polls [OF h1 h2 h3 h4, of 7 fresh_worker sample_env
      "[PollId ''2'' sample_env]" "[]" fresh_verifier]
  have "fst (worker_loop 7 fresh_worker
            (PollId ''1'' sample_env # take 9 (replicate 10 (PollEmpty False))))
       = ScriptExhausted"
    and "fst (worker_loop 7 fresh_worker
            (PollId ''1'' sample_env # replicate 10 (PollEmpty False)
               @ [PollId ''2'' sample_env])) = LoopExited"
    and "fst (verifier_loop 7 fresh_verifier
            (PollId ''1'' sample_env # take 9 (replicate 10 (PollEmpty False))))
       = ScriptExhausted"
    and "fst (verifier_loop 7 fresh_verifier
            (PollId ''1'' sample_env # replicate 10 (PollEmpty False)
               @ [PollId ''2'' sample_env])) = LoopExited"
    by (metis fst_conv)+
  with h1 h2 h3 h4 show ?thesis by blast
qed

text \<open>
  C6 as stated fails. The number of polls is not a setting: it is ten in both loops, and
  after nine empty polls in a row both are still running. And not every successful pop
  resets the count: after nine empty polls a pop that yields the empty string does not set
  the count to zero and is not processed, but is the tenth empty poll and ends the loop.
\<close>

theorem empty_string_pop_ends_loops:
  "fst (worker_start fresh_worker (replicate 9 (PollEmpty False))) = ScriptExhausted
   \<and> fst (verifier_start fresh_verifier (replicate 9 (PollEmpty False))) = ScriptExhausted
   \<and> fst (worker_start fresh_worker
            (replicate 9 (PollEmpty False) @ [PollId [] sample_env, PollId ''2'' sample_env]))
       = LoopExited
   \<and> fst (snd (worker_start fresh_worker
            (replicate 9 (PollEmpty False) @ [PollId [] sample_env, PollId ''2'' sample_env])))
       = 10
   \<and> fst (verifier_start fresh_verifier
            (replicate 9 (PollEmpty False) @ [PollId [] sample_env, PollId ''2'' sample_env]))
       = LoopExited
   \<and> fst (snd (verifier_start fresh_verifier
            (replicate 9 (PollEmpty False) @ [PollId [] sample_env, PollId ''2'' sample_env])))
       = 10"
proof -
  have e: "list_all pop_empty (replicate 9 (PollEmpty False))" by (simp add: list_all_iff)
  have l: "0 + length (replicate 9 (PollEmpty False)) < maxEmptyChecks"
    by (simp add: maxEmptyChecks_def)
  have w: "worker_loop 0 x (replicate 9 (PollEmpty False) @ ps) = worker_loop 9 x ps" for x ps
    using worker_loop_counts [OF e l, of x ps] by simp
  have v: "verifier_loop 0 x (replicate 9 (PollEmpty False) @ ps) = verifier_loop 9 x ps"
    for x ps
    using verifier_loop_counts [OF e l, of x ps] by simp
  show ?thesis
    using w [of fresh_worker "[]"] v [of fresh_verifier "[]"]
    by (simp add: worker_start_def verifier_start_def w v maxEmptyChecks_def)
qed

subsection \<open>The Coordinator's pagination\<close>

declare discover_remaining.simps [simp del]

lemma discover_remaining_offsets:
  "\<forall>off. \<exists>pg. page_at src off = Inr pg \<Longrightarrow> \<forall>off. \<not> push_fails src off \<Longrightarrow>
   c_offsets (snd (discover_remaining src t off added c))
     = c_offsets c @ map (\<lambda>k. off + 50 * int k) [0..<nat ((t - off + 49) div 50)]"
proof (induction src t off added c rule: discover_remaining.induct)
  case (1 src t off added c)
  note ok = "1.prems"(1) and push = "1.prems"(2)
  show ?case
  proof (cases "off < t")
    case False
    then have "nat ((t - off + 49) div 50) = 0" by simp
    with False show ?thesis by (simp add: discover_remaining.simps [of src t off])
  next
    case True
    from ok obtain pg where pg: "page_at src off = Inr pg" by blast
    let ?c1 = "c\<lparr>c_offsets := c_offsets c @ [off]\<rparr>"
    obtain q n where qn: "pushListingIds (c_queue ?c1) (ids pg) = (q, n)" by force
    let ?c2 = "?c1\<lparr>c_queue := q\<rparr>"
    have pp: "push_page src off (ids pg) ?c1 = (Inr n, ?c2)"
      using push qn by (simp add: push_page_def)
    have step: "discover_remaining src t off added c
                  = discover_remaining src t (off + page_limit) (added + n) ?c2"
      using True pg pp by (simp add: discover_remaining.simps [of src t off] Let_def)
    have ih: "c_offsets (snd (discover_remaining src t (off + page_limit) (added + n) ?c2))
          = c_offsets ?c2 @ map (\<lambda>k. off + page_limit + 50 * int k)
              [0..<nat ((t - (off + page_limit) + 49) div 50)]"
      using "1.IH" [OF True refl pg pp [symmetric] refl] ok push by simp
    have cnt: "nat ((t - off + 49) div 50) = Suc (nat ((t - (off + page_limit) + 49) div 50))"
      using True by (simp add: page_limit_def)
    show ?thesis
      unfolding step ih cnt
      by (simp add: map_upt_Suc page_limit_def algebra_simps del: upt_Suc)
  qed
qed

text \<open>
  C5, as the code has it. The pagination of \<open>discoverCity\<close> follows the total advertised by
  the first page and nothing else: when no fetch and no push fails and the first page
  advertises a total above 0, the offsets requested are exactly 0, 50, 100, ... below that
  total, whatever ids the pages hold and whatever totals the later pages advertise; their
  number grows with the total without a bound.
\<close>

theorem discoverCity_offsets:
  assumes ok: "\<forall>off. \<exists>pg. page_at src off = Inr pg"
    and push: "\<forall>off. \<not> push_fails src off"
    and first: "page_at src 0 = Inr firstPage"
    and pos: "0 < total firstPage"
  shows "c_offsets (snd (discoverCity src c))
           = c_offsets c @ map (\<lambda>k. 50 * int k) [0..<nat ((total firstPage + 49) div 50)]"
proof -
  let ?c1 = "c\<lparr>c_offsets := c_offsets c @ [0]\<rparr>"
  obtain q n where qn: "pushListingIds (c_queue ?c1) (ids firstPage) = (q, n)" by force
  let ?c2 = "?c1\<lparr>c_queue := q\<rparr>"
  have pp: "push_page src 0 (ids firstPage) ?c1 = (Inr n, ?c2)"
    using push qn by (simp add: push_page_def)
  have cnt: "nat ((total firstPage + 49) div 50) = Suc (nat ((total firstPage - 50 + 49) div 50))"
    using pos by simp
  have rest: "c_offsets (snd (discover_remaining src (total firstPage) (0 + page_limit) n ?c2))
      = c_offsets ?c2 @ map (\<lambda>k. 50 + 50 * int k) [0..<nat ((total firstPage - 50 + 49) div 50)]"
    using discover_remaining_offsets [OF ok push, of "total firstPage" "0 + page_limit" n ?c2]
    by (simp add: page_limit_def)
  show ?thesis
    using first pos pp rest
    by (auto simp: discoverCity_def Let_def cnt map_upt_Suc algebra_simps
        simp del: upt_Suc split: prod.splits sum.splits)
qed

theorem discoverCity_offsets_witness:
  "(\<forall>off. \<exists>pg. page_at shrinking_pages off = Inr pg)
   \<and> (\<forall>off. \<not> push_fails shrinking_pages off)
   \<and> page_at shrinking_pages 0 = Inr \<lparr>ids = [''a'', ''b''], total = 120\<rparr>
   \<and> page_at shrinking_pages 50 = Inr \<lparr>ids = [''a'', ''b''], total = 60\<rparr>
   \<and> c_offsets (snd (discoverCity shrinking_pages fresh_coordinator)) = [0, 50, 100]"
proof -
  have h1: "\<forall>off. \<exists>pg. page_at shrinking_pages off = Inr pg"
    by (simp add: shrinking_pages_def)
  have h2: "\<forall>off. \<not> push_fails shrinking_pages off" by (simp add: shrinking_pages_def)
  have h3: "page_at shrinking_pages 0 = Inr \<lparr>ids = [''a'', ''b''], total = 120\<rparr>"
    by (simp add: shrinking_pages_def)
  have h4: "0 < total \<lparr>ids = [''a'', ''b''], total = 120\<rparr>" by simp
  have n: "[0..<nat ((120 + 49) div 50)] = [0, 1, 2]" by (simp add: upt_rec)
  from discoverCity_offsets [OF h1 h2 h3 h4, of fresh_coordinator] show ?thesis
    using h1 h2 h3 n by (simp add: fresh_coordinator_def shrinking_pages_def)
qed

text \<open>
  C5 as stated fails: two partitions on whose pages no id at all is observed are paged
  differently because their advertised totals differ; with a total of 150 the loop goes on
  to the offsets 50 and 100 although every page is empty.
\<close>

theorem discoverCity_follows_advertised_total:
  "ids \<lparr>ids = [], total = 50\<rparr> = ids \<lparr>ids = [], total = 150\<rparr>
   \<and> c_offsets (snd (discoverCity (empty_pages 50) fresh_coordinator)) = [0]
   \<and> c_offsets (snd (discoverCity (empty_pages 150) fresh_coordinator)) = [0, 50, 100]"
  by (simp add: discoverCity_def empty_pages_def fresh_coordinator_def push_page_def
        page_limit_def discover_remaining.simps Let_def)

subsection \<open>Retry delays\<close>








end
